theory Spec2Isabelle
  imports Complex_Main "HOL-Library.Word"
begin

section \<open>Double-precision values\<close>

text \<open>
  \<open>float64_t\<close> values: a finite value, the two infinities, or NaN. The two signed
  zeros are identified (they compare equal in C++, and \<open>fabs\<close> maps both to \<open>+0\<close>).
\<close>

datatype float64 = Fin real | PInf | NInf | NaN

text \<open>
  The rounding applied to the exact result of an operation on finite operands, one
  function per operation. A rounding function may overflow to an infinity. The functions
  are parameters of the model: the results below are stated for every rounding that has the
  properties named in their hypotheses.
\<close>

record rounding =
  round_add :: "real \<Rightarrow> float64"
  round_mul :: "real \<Rightarrow> float64"
  round_div :: "real \<Rightarrow> float64"

text \<open>Arithmetic without rounding error, used to evaluate concrete examples.\<close>

definition exact :: rounding where
  "exact = \<lparr>round_add = Fin, round_mul = Fin, round_div = Fin\<rparr>"

fun fneg :: "float64 \<Rightarrow> float64" where
  "fneg (Fin x) = Fin (- x)"
| "fneg PInf = NInf"
| "fneg NInf = PInf"
| "fneg NaN = NaN"

text \<open>\<open>fabs\<close> of \<open><cmath>\<close>: clears the sign, exact.\<close>

fun fabs :: "float64 \<Rightarrow> float64" where
  "fabs (Fin x) = Fin \<bar>x\<bar>"
| "fabs PInf = PInf"
| "fabs NInf = PInf"
| "fabs NaN = NaN"

fun fadd :: "rounding \<Rightarrow> float64 \<Rightarrow> float64 \<Rightarrow> float64" where
  "fadd r (Fin x) (Fin y) = round_add r (x + y)"
| "fadd r NaN y = NaN"
| "fadd r x NaN = NaN"
| "fadd r PInf NInf = NaN"
| "fadd r NInf PInf = NaN"
| "fadd r PInf y = PInf"
| "fadd r x PInf = PInf"
| "fadd r NInf y = NInf"
| "fadd r x NInf = NInf"

definition fsub :: "rounding \<Rightarrow> float64 \<Rightarrow> float64 \<Rightarrow> float64" where
  "fsub r x y = fadd r x (fneg y)"

fun fmul :: "rounding \<Rightarrow> float64 \<Rightarrow> float64 \<Rightarrow> float64" where
  "fmul r (Fin x) (Fin y) = round_mul r (x * y)"
| "fmul r NaN y = NaN"
| "fmul r x NaN = NaN"
| "fmul r (Fin x) PInf = (if x = 0 then NaN else if 0 < x then PInf else NInf)"
| "fmul r (Fin x) NInf = (if x = 0 then NaN else if 0 < x then NInf else PInf)"
| "fmul r PInf (Fin y) = (if y = 0 then NaN else if 0 < y then PInf else NInf)"
| "fmul r NInf (Fin y) = (if y = 0 then NaN else if 0 < y then NInf else PInf)"
| "fmul r PInf PInf = PInf"
| "fmul r NInf NInf = PInf"
| "fmul r PInf NInf = NInf"
| "fmul r NInf PInf = NInf"

text \<open>
  Division. A zero divisor is taken as \<open>+0\<close>; \<open>BrayCurtisDistance::compute\<close> never
  divides by zero (see its guard).
\<close>

fun fdiv :: "rounding \<Rightarrow> float64 \<Rightarrow> float64 \<Rightarrow> float64" where
  "fdiv r (Fin x) (Fin y) =
     (if y = 0 then (if x = 0 then NaN else if 0 < x then PInf else NInf)
      else round_div r (x / y))"
| "fdiv r NaN y = NaN"
| "fdiv r x NaN = NaN"
| "fdiv r (Fin x) PInf = Fin 0"
| "fdiv r (Fin x) NInf = Fin 0"
| "fdiv r PInf (Fin y) = (if 0 \<le> y then PInf else NInf)"
| "fdiv r NInf (Fin y) = (if 0 \<le> y then NInf else PInf)"
| "fdiv r PInf PInf = NaN"
| "fdiv r PInf NInf = NaN"
| "fdiv r NInf PInf = NaN"
| "fdiv r NInf NInf = NaN"

text \<open>The C++ comparison \<open>==\<close> on doubles: NaN is equal to nothing, itself included.\<close>

fun feq :: "float64 \<Rightarrow> float64 \<Rightarrow> bool" where
  "feq (Fin x) (Fin y) = (x = y)"
| "feq PInf PInf = True"
| "feq NInf NInf = True"
| "feq x y = False"

fun is_finite :: "float64 \<Rightarrow> bool" where
  "is_finite (Fin x) = True"
| "is_finite x = False"

text \<open>A value that is neither NaN nor negative.\<close>

fun nonneg :: "float64 \<Rightarrow> bool" where
  "nonneg (Fin x) = (0 \<le> x)"
| "nonneg PInf = True"
| "nonneg x = False"

text \<open>
  Properties of rounding that the results on the distance use. Rounding keeps zero,
  gives no NaN and keeps the sign, and a sum or difference of two doubles that is not
  zero does not round to zero (IEEE 754 with gradual underflow: such a sum is a multiple
  of the smallest subnormal number).
\<close>

definition rounding_ok :: "rounding \<Rightarrow> bool" where
  "rounding_ok r \<longleftrightarrow>
     round_add r 0 = Fin 0 \<and> round_div r 0 = Fin 0 \<and>
     (\<forall>x. round_add r x \<noteq> NaN) \<and>
     (\<forall>x. 0 \<le> x \<longrightarrow> nonneg (round_add r x)) \<and>
     (\<forall>x. round_add r x = Fin 0 \<longrightarrow> x = 0)"

text \<open>Rounding of sums is symmetric about zero (round to nearest, round towards zero).\<close>

definition rounding_odd :: "rounding \<Rightarrow> bool" where
  "rounding_odd r \<longleftrightarrow> (\<forall>x. round_add r (- x) = fneg (round_add r x))"

section \<open>Errors\<close>

text \<open>
  \<open>require(cond, fmt, args...)\<close> throws when \<open>cond\<close> is false; the error carries the
  format string and the arguments. \<open>ASSERT(cond)\<close> throws with the text of the
  condition.
\<close>

datatype error = RequireError string "int list" | AssertError string

section \<open>FirstOrderStochasticMinimizer\<close>

text \<open>
  The collaborators are declared in headers outside the excerpt. A cost function and a
  descend updater are opaque objects, known by their identity. A learning rate offers
  \<open>get_learning_rate(iter_counter)\<close>. A penalty is seen through the two casts of
  \<open>do_proximal_operation\<close>: \<open>as_ProximalPenalty\<close> is the result of
  \<open>dynamic_pointer_cast<ProximalPenalty>\<close> (the object's
  \<open>update_variable_for_proximity\<close> when the cast succeeds), \<open>as_SparsePenalty\<close> says
  whether \<open>dynamic_pointer_cast<SparsePenalty>\<close> succeeds. A \<open>shared_ptr\<close> is an
  \<open>option\<close>, \<open>None\<close> for the null pointer.
\<close>

datatype CostFunction = CostFunction nat

datatype DescendUpdater = DescendUpdater nat

record LearningRate =
  get_learning_rate :: "32 word \<Rightarrow> float64"

record Penalty =
  as_ProximalPenalty :: "(float64 list \<Rightarrow> float64 \<Rightarrow> float64 list) option"
  as_SparsePenalty :: bool

text \<open>
  The members the file reads and writes; \<open>m_fun\<close>, \<open>m_penalty_type\<close> and
  \<open>m_penalty_weight\<close> come from the base class. The three counters are \<open>int32_t\<close>.
\<close>

record FirstOrderStochasticMinimizer =
  m_fun :: "CostFunction option"
  m_penalty_type :: "Penalty option"
  m_penalty_weight :: float64
  m_gradient_updater :: "DescendUpdater option"
  m_learning_rate :: "LearningRate option"
  m_num_passes :: "32 word"
  m_cur_passes :: "32 word"
  m_iter_counter :: "32 word"

text \<open>
  A member function returns its outcome (\<open>Inl\<close> the exception thrown, \<open>Inr ()\<close> a
  normal return) together with the object as the call leaves it, so that what a failed
  call has written stays visible.
\<close>

definition set_gradient_updater ::
  "DescendUpdater option \<Rightarrow> FirstOrderStochasticMinimizer
     \<Rightarrow> (error + unit) \<times> FirstOrderStochasticMinimizer" where
  "set_gradient_updater gradient_updater s =
     (if gradient_updater = None
      then (Inl (RequireError ''Gradient updater must set'' []), s)
      else if m_gradient_updater s \<noteq> gradient_updater
      then (Inr (), s\<lparr>m_gradient_updater := gradient_updater\<rparr>)
      else (Inr (), s))"

definition set_number_passes ::
  "32 word \<Rightarrow> FirstOrderStochasticMinimizer
     \<Rightarrow> (error + unit) \<times> FirstOrderStochasticMinimizer" where
  "set_number_passes num_passes s =
     (if \<not> 0 < sint num_passes
      then (Inl (RequireError ''The number ({}) to go through data must be positive''
                   [sint num_passes]), s)
      else (Inr (), s\<lparr>m_num_passes := num_passes\<rparr>))"

definition set_learning_rate ::
  "LearningRate option \<Rightarrow> FirstOrderStochasticMinimizer
     \<Rightarrow> (error + unit) \<times> FirstOrderStochasticMinimizer" where
  "set_learning_rate learning_rate s =
     (if m_learning_rate s \<noteq> learning_rate
      then (Inr (), s\<lparr>m_learning_rate := learning_rate\<rparr>)
      else (Inr (), s))"

text \<open>
  \<open>do_proximal_operation\<close> writes to the variable vector it is given (an
  \<open>SGVector\<close> shares its storage with the caller's) and to no member: it returns the
  outcome and the vector as the call leaves it.
\<close>

definition do_proximal_operation ::
  "rounding \<Rightarrow> FirstOrderStochasticMinimizer \<Rightarrow> float64 list
     \<Rightarrow> (error + unit) \<times> float64 list" where
  "do_proximal_operation r s variable_reference =
     (case m_penalty_type s of
        None \<Rightarrow> (Inr (), variable_reference)
      | Some penalty \<Rightarrow>
          (case as_ProximalPenalty penalty of
             None \<Rightarrow> (Inr (), variable_reference)
           | Some update_variable_for_proximity \<Rightarrow>
               if as_SparsePenalty penalty
               then (case m_learning_rate s of
                       None \<Rightarrow>
                         (Inl (RequireError
                            ''Learning rate must set when Sparse Penalty (eg, L1) is used'' []),
                          variable_reference)
                     | Some lr \<Rightarrow>
                         (Inr (),
                          update_variable_for_proximity variable_reference
                            (fmul r (m_penalty_weight s)
                               (get_learning_rate lr (m_iter_counter s)))))
               else (Inr (),
                     update_variable_for_proximity variable_reference
                       (m_penalty_weight s))))"

definition init_minimization ::
  "FirstOrderStochasticMinimizer \<Rightarrow> (error + unit) \<times> FirstOrderStochasticMinimizer" where
  "init_minimization s =
     (if m_fun s = None then (Inl (RequireError ''Cost function must set'' []), s)
      else if m_gradient_updater s = None
      then (Inl (RequireError ''Descend updater must set'' []), s)
      else if \<not> 0 < sint (m_num_passes s)
      then (Inl (RequireError ''The number to go through data must set'' []), s)
      else (Inr (), s\<lparr>m_cur_passes := 0\<rparr>))"

text \<open>
  \<open>init\<close>, the constructor's helper. The \<open>SG_ADD\<close> calls register the members for
  serialization and change none of them.
\<close>

definition init :: "FirstOrderStochasticMinimizer \<Rightarrow> FirstOrderStochasticMinimizer" where
  "init s = s\<lparr>m_gradient_updater := None, m_learning_rate := None,
              m_num_passes := 0, m_cur_passes := 0, m_iter_counter := 0\<rparr>"

section \<open>BrayCurtisDistance\<close>

text \<open>
  \<open>DenseFeatures::get_feature_vector\<close> is outside the excerpt: a feature container is
  the function from an index to the vector stored there.
\<close>

record BrayCurtisDistance =
  lhs :: "32 word \<Rightarrow> float64 list"
  rhs :: "32 word \<Rightarrow> float64 list"

text \<open>
  The loop of \<open>compute\<close>, from index \<open>i\<close>, on the running sums \<open>s1\<close> and \<open>s2\<close>.
  The length and the index are natural numbers: a feature vector has fewer than \<open>2^31\<close>
  entries, so the \<open>int32_t\<close> index does not overflow.
\<close>

function compute_loop ::
  "rounding \<Rightarrow> float64 list \<Rightarrow> float64 list \<Rightarrow> nat \<Rightarrow> nat \<Rightarrow> float64 \<times> float64
     \<Rightarrow> float64 \<times> float64" where
  "compute_loop r avec bvec alen i (s1, s2) =
     (if i < alen
      then compute_loop r avec bvec alen (Suc i)
             (fadd r s1 (fabs (fsub r (avec ! i) (bvec ! i))),
              fadd r s2 (fabs (fadd r (avec ! i) (bvec ! i))))
      else (s1, s2))"
  by pat_completeness auto
termination
  by (relation "measure (\<lambda>(r, avec, bvec, alen, i, acc). alen - i)") auto

declare compute_loop.simps [simp del]

text \<open>
  \<open>compute\<close>: the two vectors are fetched, \<open>ASSERT(alen==blen)\<close> throws on unequal
  lengths, the loop adds up the two sums, and the guard returns 0 when \<open>s2 == 0\<close>.
\<close>

definition compute ::
  "rounding \<Rightarrow> BrayCurtisDistance \<Rightarrow> 32 word \<Rightarrow> 32 word \<Rightarrow> error + float64" where
  "compute r d idx_a idx_b =
     (let avec = lhs d idx_a; bvec = rhs d idx_b in
      if length avec \<noteq> length bvec then Inl (AssertError ''alen==blen'')
      else
        (case compute_loop r avec bvec (length avec) 0 (Fin 0, Fin 0) of
           (s1, s2) \<Rightarrow>
             if feq s2 (Fin 0) then Inr (Fin 0) else Inr (fdiv r s1 s2)))"

text \<open>
  The two sums in the words of the specification: the sum of the \<open>|a_i - b_i|\<close> and the
  sum of the \<open>|a_i + b_i|\<close>, added up from zero in index order.
\<close>

definition abs_diff_sum :: "rounding \<Rightarrow> float64 list \<Rightarrow> float64 list \<Rightarrow> float64" where
  "abs_diff_sum r a b = foldl (fadd r) (Fin 0) (map2 (\<lambda>x y. fabs (fsub r x y)) a b)"

definition abs_sum_sum :: "rounding \<Rightarrow> float64 list \<Rightarrow> float64 list \<Rightarrow> float64" where
  "abs_sum_sum r a b = foldl (fadd r) (Fin 0) (map2 (\<lambda>x y. fabs (fadd r x y)) a b)"

section \<open>Example objects\<close>

definition constant_rate :: LearningRate where
  "constant_rate = \<lparr>get_learning_rate = (\<lambda>iter_counter. Fin (1 / 10))\<rparr>"

text \<open>A proximal step that moves every entry towards zero by the weight, stopping at zero.\<close>

fun shrink :: "float64 \<Rightarrow> float64 \<Rightarrow> float64" where
  "shrink (Fin w) (Fin x) =
     (if w < x then Fin (x - w) else if x < - w then Fin (x + w) else Fin 0)"
| "shrink w x = x"

definition sparse_penalty :: Penalty where
  "sparse_penalty =
     \<lparr>as_ProximalPenalty = Some (\<lambda>variable w. map (shrink w) variable),
      as_SparsePenalty = True\<rparr>"

definition dense_penalty :: Penalty where
  "dense_penalty =
     \<lparr>as_ProximalPenalty = Some (\<lambda>variable w. map (shrink w) variable),
      as_SparsePenalty = False\<rparr>"

definition plain_penalty :: Penalty where
  "plain_penalty = \<lparr>as_ProximalPenalty = None, as_SparsePenalty = False\<rparr>"

text \<open>A freshly constructed minimizer, and one that is configured except for the learning rate.\<close>

definition fresh :: FirstOrderStochasticMinimizer where
  "fresh = \<lparr>m_fun = None, m_penalty_type = None, m_penalty_weight = Fin 0,
            m_gradient_updater = None, m_learning_rate = None,
            m_num_passes = 0, m_cur_passes = 0, m_iter_counter = 0\<rparr>"

definition configured :: FirstOrderStochasticMinimizer where
  "configured = \<lparr>m_fun = Some (CostFunction 1), m_penalty_type = Some sparse_penalty,
                 m_penalty_weight = Fin (1 / 20),
                 m_gradient_updater = Some (DescendUpdater 2), m_learning_rate = None,
                 m_num_passes = 5, m_cur_passes = 3, m_iter_counter = 7\<rparr>"

text \<open>Feature containers with one vector each.\<close>

definition features :: "float64 list \<Rightarrow> float64 list \<Rightarrow> BrayCurtisDistance" where
  "features a b = \<lparr>lhs = (\<lambda>idx. a), rhs = (\<lambda>idx. b)\<rparr>"

section \<open>The proximal step\<close>

text \<open>
  C1. \<open>do_proximal_operation\<close>, for every configured penalty: with a penalty that is
  proximal-capable the proximal correction is applied to the variable vector, with the
  configured penalty weight when the penalty is not sparsity-inducing, and with that
  weight times the learning rate at the current iteration counter when it is (the
  learning rate that such a penalty requires being set); with a penalty that is not
  proximal-capable the variable vector is left as it is.
\<close>

theorem do_proximal_operation_weight:
  "(m_penalty_type s = Some p \<and> as_ProximalPenalty p = Some update \<and>
      \<not> as_SparsePenalty p \<longrightarrow>
      do_proximal_operation r s v = (Inr (), update v (m_penalty_weight s))) \<and>
   (m_penalty_type s = Some p \<and> as_ProximalPenalty p = Some update \<and>
      as_SparsePenalty p \<and> m_learning_rate s = Some lr \<longrightarrow>
      do_proximal_operation r s v =
        (Inr (), update v (fmul r (m_penalty_weight s)
                             (get_learning_rate lr (m_iter_counter s))))) \<and>
   (m_penalty_type s = Some p \<and> as_ProximalPenalty p = None \<longrightarrow>
      do_proximal_operation r s v = (Inr (), v))"
  by (simp add: do_proximal_operation_def)

text \<open>
  The three kinds of penalty on the vector \<open>(1, 0.001, -2)\<close>, with penalty weight
  \<open>0.05\<close> and learning rate \<open>0.1\<close>: the sparse penalty moves by \<open>0.005\<close>, the dense
  one by \<open>0.05\<close>.
\<close>

theorem do_proximal_operation_weight_witness:
  "do_proximal_operation exact (configured\<lparr>m_learning_rate := Some constant_rate\<rparr>)
     [Fin 1, Fin (1 / 1000), Fin (- 2)] =
     (Inr (), [Fin (199 / 200), Fin 0, Fin (- 399 / 200)]) \<and>
   do_proximal_operation exact (configured\<lparr>m_penalty_type := Some dense_penalty\<rparr>)
     [Fin 1, Fin (1 / 1000), Fin (- 2)] =
     (Inr (), [Fin (19 / 20), Fin 0, Fin (- 39 / 20)]) \<and>
   do_proximal_operation exact (configured\<lparr>m_penalty_type := Some plain_penalty\<rparr>)
     [Fin 1, Fin (1 / 1000), Fin (- 2)] =
     (Inr (), [Fin 1, Fin (1 / 1000), Fin (- 2)])"
  using do_proximal_operation_weight
      [where s = "configured\<lparr>m_learning_rate := Some constant_rate\<rparr>"
         and p = sparse_penalty and update = "\<lambda>variable w. map (shrink w) variable"
         and lr = constant_rate and r = exact and v = "[Fin 1, Fin (1 / 1000), Fin (- 2)]"]
    do_proximal_operation_weight
      [where s = "configured\<lparr>m_penalty_type := Some dense_penalty\<rparr>"
         and p = dense_penalty and update = "\<lambda>variable w. map (shrink w) variable"
         and lr = constant_rate and r = exact and v = "[Fin 1, Fin (1 / 1000), Fin (- 2)]"]
    do_proximal_operation_weight
      [where s = "configured\<lparr>m_penalty_type := Some plain_penalty\<rparr>"
         and p = plain_penalty and update = "\<lambda>variable w. map (shrink w) variable"
         and lr = constant_rate and r = exact and v = "[Fin 1, Fin (1 / 1000), Fin (- 2)]"]
  by (simp add: configured_def sparse_penalty_def dense_penalty_def plain_penalty_def
      constant_rate_def exact_def)

section \<open>The learning rate of a sparse penalty\<close>

text \<open>
  C2, as stated: a minimizer with a sparsity-inducing proximal penalty and no learning
  rate fails at \<open>init_minimization()\<close>. It does not: \<open>configured\<close> has such a
  penalty and no learning rate, and its \<open>init_minimization()\<close> returns normally.
\<close>

theorem init_minimization_ignores_learning_rate_counterexample:
  "m_penalty_type configured = Some sparse_penalty \<and>
   as_ProximalPenalty sparse_penalty \<noteq> None \<and> as_SparsePenalty sparse_penalty \<and>
   m_learning_rate configured = None \<and>
   fst (init_minimization configured) = Inr ()"
  by (simp add: configured_def sparse_penalty_def init_minimization_def)

text \<open>
  C2, amended. With a sparsity-inducing proximal penalty and no learning rate,
  \<open>init_minimization()\<close> succeeds exactly when the cost function, the updater and a
  positive number of passes are set; the missing learning rate is reported by
  \<open>do_proximal_operation\<close>, which throws and leaves the variable vector as it is.
\<close>

theorem missing_learning_rate_found_by_proximal_operation:
  "m_penalty_type s = Some p \<and> as_ProximalPenalty p = Some update \<and>
   as_SparsePenalty p \<and> m_learning_rate s = None \<longrightarrow>
     (fst (init_minimization s) = Inr ()) =
       (m_fun s \<noteq> None \<and> m_gradient_updater s \<noteq> None \<and> 0 < sint (m_num_passes s)) \<and>
     do_proximal_operation r s v =
       (Inl (RequireError ''Learning rate must set when Sparse Penalty (eg, L1) is used'' []),
        v)"
  by (simp add: init_minimization_def do_proximal_operation_def)

theorem missing_learning_rate_found_by_proximal_operation_witness:
  "fst (init_minimization configured) = Inr () \<and>
   do_proximal_operation exact configured [Fin 1] =
     (Inl (RequireError ''Learning rate must set when Sparse Penalty (eg, L1) is used'' []),
      [Fin 1])"
  using missing_learning_rate_found_by_proximal_operation
      [where s = configured and p = sparse_penalty
         and update = "\<lambda>variable w. map (shrink w) variable" and r = exact
         and v = "[Fin 1]"]
  by (simp add: configured_def sparse_penalty_def)

section \<open>Initialization\<close>

text \<open>
  C3. \<open>init_minimization()\<close> succeeds if and only if a cost function is set, a gradient
  updater is set and the number of passes is positive. When it succeeds it sets the pass
  counter to zero and changes nothing else; when it fails it throws one of its three
  configuration errors and changes nothing.
\<close>

theorem init_minimization_checks:
  "((fst (init_minimization s) = Inr ()) =
      (m_fun s \<noteq> None \<and> m_gradient_updater s \<noteq> None \<and> 0 < sint (m_num_passes s))) \<and>
   (fst (init_minimization s) = Inr () \<longrightarrow>
      snd (init_minimization s) = s\<lparr>m_cur_passes := 0\<rparr>) \<and>
   (fst (init_minimization s) \<noteq> Inr () \<longrightarrow>
      snd (init_minimization s) = s \<and>
      fst (init_minimization s) \<in>
        {Inl (RequireError ''Cost function must set'' []),
         Inl (RequireError ''Descend updater must set'' []),
         Inl (RequireError ''The number to go through data must set'' [])})"
  by (simp add: init_minimization_def)

theorem init_minimization_checks_witness:
  "fst (init_minimization configured) = Inr () \<and>
   m_cur_passes (snd (init_minimization configured)) = 0 \<and>
   fst (init_minimization fresh) = Inl (RequireError ''Cost function must set'' []) \<and>
   fst (init_minimization (configured\<lparr>m_gradient_updater := None\<rparr>)) =
     Inl (RequireError ''Descend updater must set'' []) \<and>
   fst (init_minimization (configured\<lparr>m_num_passes := 0\<rparr>)) =
     Inl (RequireError ''The number to go through data must set'' [])"
  using init_minimization_checks [of configured] init_minimization_checks [of fresh]
    init_minimization_checks [of "configured\<lparr>m_gradient_updater := None\<rparr>"]
    init_minimization_checks [of "configured\<lparr>m_num_passes := 0\<rparr>"]
  by (simp add: configured_def fresh_def init_minimization_def)

text \<open>
  C4, as stated: after a successful \<open>init_minimization()\<close> the pass counter and the
  iteration counter are both zero. On \<open>configured\<close>, whose iteration counter is 7,
  \<open>init_minimization()\<close> succeeds and the iteration counter is still 7.
\<close>

theorem init_minimization_keeps_iter_counter_counterexample:
  "fst (init_minimization configured) = Inr () \<and>
   m_cur_passes (snd (init_minimization configured)) = 0 \<and>
   m_iter_counter (snd (init_minimization configured)) = 7"
  by (simp add: configured_def init_minimization_def)

text \<open>
  C4, amended. A successful \<open>init_minimization()\<close> sets the pass counter to zero and
  leaves the iteration counter as it was; it is \<open>init()\<close>, run at construction, that
  sets both counters to zero.
\<close>

theorem counters_reset:
  "(fst (init_minimization s) = Inr () \<longrightarrow>
      m_cur_passes (snd (init_minimization s)) = 0 \<and>
      m_iter_counter (snd (init_minimization s)) = m_iter_counter s) \<and>
   m_cur_passes (init s) = 0 \<and> m_iter_counter (init s) = 0"
  by (simp add: init_minimization_def init_def)

theorem counters_reset_witness:
  "fst (init_minimization configured) = Inr () \<and>
   m_cur_passes (snd (init_minimization configured)) = 0 \<and>
   m_iter_counter (snd (init_minimization configured)) = m_iter_counter configured \<and>
   m_iter_counter configured = 7 \<and>
   m_cur_passes (init configured) = 0 \<and> m_iter_counter (init configured) = 0"
  using counters_reset [of configured]
  by (simp add: configured_def init_minimization_def)

section \<open>The setters\<close>

text \<open>
  C5. \<open>set_number_passes(n)\<close> fails with a configuration error for every n that is not
  positive (0 and -1 among them), and for every positive n (5, say) it succeeds and the
  stored number of passes is n afterwards.
\<close>

theorem set_number_passes_positive:
  "(sint n \<le> 0 \<longrightarrow>
      fst (set_number_passes n s) =
        Inl (RequireError ''The number ({}) to go through data must be positive'' [sint n])) \<and>
   (0 < sint n \<longrightarrow>
      fst (set_number_passes n s) = Inr () \<and> m_num_passes (snd (set_number_passes n s)) = n)"
  by (simp add: set_number_passes_def)

theorem set_number_passes_positive_witness:
  "sint (0 :: 32 word) \<le> 0 \<and> sint (- 1 :: 32 word) \<le> 0 \<and> 0 < sint (5 :: 32 word) \<and>
   fst (set_number_passes 0 fresh) =
     Inl (RequireError ''The number ({}) to go through data must be positive'' [0]) \<and>
   fst (set_number_passes (- 1) fresh) =
     Inl (RequireError ''The number ({}) to go through data must be positive'' [- 1]) \<and>
   fst (set_number_passes 5 fresh) = Inr () \<and>
   m_num_passes (snd (set_number_passes 5 fresh)) = 5"
  using set_number_passes_positive [of 0 fresh]
    set_number_passes_positive [of "- 1" fresh]
    set_number_passes_positive [of 5 fresh]
  by simp

text \<open>
  C6. \<open>set_gradient_updater\<close> with a null updater fails and stores nothing. A call that
  succeeds was given a non-null updater and stores it, no call turns a non-null stored
  updater into null, and \<open>init_minimization()\<close> succeeds only with a non-null updater:
  the updater is non-null before any step is taken.
\<close>

theorem set_gradient_updater_rejects_null:
  "set_gradient_updater None s = (Inl (RequireError ''Gradient updater must set'' []), s) \<and>
   (fst (set_gradient_updater u s) = Inr () \<longrightarrow>
      u \<noteq> None \<and> m_gradient_updater (snd (set_gradient_updater u s)) = u) \<and>
   (m_gradient_updater s \<noteq> None \<longrightarrow>
      m_gradient_updater (snd (set_gradient_updater u s)) \<noteq> None) \<and>
   (fst (init_minimization s) = Inr () \<longrightarrow> m_gradient_updater s \<noteq> None)"
  by (auto simp add: set_gradient_updater_def init_minimization_def split: if_splits)

theorem set_gradient_updater_rejects_null_witness:
  "fst (set_gradient_updater (Some (DescendUpdater 9)) configured) = Inr () \<and>
   m_gradient_updater (snd (set_gradient_updater (Some (DescendUpdater 9)) configured)) =
     Some (DescendUpdater 9) \<and>
   m_gradient_updater (snd (set_gradient_updater None configured)) =
     Some (DescendUpdater 2) \<and>
   fst (init_minimization configured) = Inr () \<and>
   m_gradient_updater configured = Some (DescendUpdater 2)"
  using set_gradient_updater_rejects_null
      [where s = configured and u = "Some (DescendUpdater 9)"]
    set_gradient_updater_rejects_null [where s = configured and u = None]
  by (simp add: configured_def set_gradient_updater_def init_minimization_def)

text \<open>
  C8. A setter that fails has written nothing: for every n that is not positive,
  \<open>set_number_passes(n)\<close> throws and leaves the minimizer, the stored number of passes
  included, as it was; \<open>set_gradient_updater\<close> with a null updater throws and leaves the
  minimizer, the stored updater included, as it was.
\<close>

theorem failed_setters_write_nothing:
  "(sint n \<le> 0 \<longrightarrow>
      fst (set_number_passes n s) \<noteq> Inr () \<and> snd (set_number_passes n s) = s) \<and>
   fst (set_gradient_updater None s) \<noteq> Inr () \<and> snd (set_gradient_updater None s) = s"
  by (simp add: set_number_passes_def set_gradient_updater_def)

theorem failed_setters_write_nothing_witness:
  "sint (- 1 :: 32 word) \<le> 0 \<and>
   fst (set_number_passes (- 1) configured) \<noteq> Inr () \<and>
   m_num_passes (snd (set_number_passes (- 1) configured)) = 5 \<and>
   sint (0 :: 32 word) \<le> 0 \<and>
   m_num_passes (snd (set_number_passes 0 configured)) = 5 \<and>
   m_gradient_updater (snd (set_gradient_updater None configured)) =
     Some (DescendUpdater 2)"
  using failed_setters_write_nothing [of "- 1" configured]
    failed_setters_write_nothing [of 0 configured]
  by (simp add: configured_def)

text \<open>
  C10. \<open>set_learning_rate\<close> has no null check, unlike \<open>set_gradient_updater\<close>: with a
  null schedule it returns normally and the stored learning rate is null afterwards.
  \<open>init_minimization()\<close> gives the same outcome as before the call; the absence shows
  later, when \<open>do_proximal_operation\<close> runs with a sparse proximal penalty and throws.
\<close>

theorem set_learning_rate_accepts_null:
  "set_learning_rate None s = (Inr (), s\<lparr>m_learning_rate := None\<rparr>) \<and>
   fst (set_gradient_updater None s) \<noteq> Inr () \<and>
   fst (init_minimization (snd (set_learning_rate None s))) = fst (init_minimization s) \<and>
   (m_penalty_type s = Some p \<and> as_ProximalPenalty p = Some update \<and>
    as_SparsePenalty p \<longrightarrow>
      fst (do_proximal_operation r (snd (set_learning_rate None s)) v) =
        Inl (RequireError ''Learning rate must set when Sparse Penalty (eg, L1) is used'' []))"
  by (simp add: set_learning_rate_def set_gradient_updater_def init_minimization_def
      do_proximal_operation_def)

theorem set_learning_rate_accepts_null_witness:
  "fst (set_learning_rate None (configured\<lparr>m_learning_rate := Some constant_rate\<rparr>)) =
     Inr () \<and>
   m_learning_rate
     (snd (set_learning_rate None (configured\<lparr>m_learning_rate := Some constant_rate\<rparr>))) =
     None \<and>
   fst (do_proximal_operation exact
          (snd (set_learning_rate None
                  (configured\<lparr>m_learning_rate := Some constant_rate\<rparr>))) [Fin 1]) =
     Inl (RequireError ''Learning rate must set when Sparse Penalty (eg, L1) is used'' [])"
  using set_learning_rate_accepts_null
      [where s = "configured\<lparr>m_learning_rate := Some constant_rate\<rparr>"
         and p = sparse_penalty and update = "\<lambda>variable w. map (shrink w) variable"
         and r = exact and v = "[Fin 1]"]
  by (simp add: configured_def sparse_penalty_def set_learning_rate_def)

section \<open>The Bray-Curtis distance\<close>

subsection \<open>The loop computes the two sums\<close>

lemma fadd_commute: "fadd r x y = fadd r y x"
  by (cases x; cases y) (simp_all add: add.commute)

lemma fabs_fneg: "fabs (fneg x) = fabs x"
  by (cases x) simp_all

lemma round_add_minus:
  "rounding_odd r \<Longrightarrow> round_add r (- a - b) = fneg (round_add r (a + b))"
  unfolding rounding_odd_def by (erule allE [of _ "a + b"]) simp

lemma fneg_fadd: "rounding_odd r \<Longrightarrow> fneg (fadd r x y) = fadd r (fneg x) (fneg y)"
  by (cases x; cases y) (simp_all add: round_add_minus)

lemma fneg_fneg: "fneg (fneg x) = x"
  by (cases x) simp_all

lemma fabs_fsub_swap: "rounding_odd r \<Longrightarrow> fabs (fsub r x y) = fabs (fsub r y x)"
proof -
  assume odd: "rounding_odd r"
  have "fsub r y x = fneg (fsub r x y)"
    unfolding fsub_def by (simp add: fneg_fadd [OF odd] fneg_fneg fadd_commute)
  then show ?thesis by (simp add: fabs_fneg)
qed

lemma compute_loop_foldl:
  "length avec = alen \<Longrightarrow> length bvec = alen \<Longrightarrow> i \<le> alen \<Longrightarrow>
   compute_loop r avec bvec alen i (s1, s2) =
     (foldl (fadd r) s1 (map2 (\<lambda>x y. fabs (fsub r x y)) (drop i avec) (drop i bvec)),
      foldl (fadd r) s2 (map2 (\<lambda>x y. fabs (fadd r x y)) (drop i avec) (drop i bvec)))"
proof (induction r avec bvec alen i "(s1, s2)" arbitrary: s1 s2 rule: compute_loop.induct)
  case (1 r avec bvec alen i s1 s2)
  show ?case
  proof (cases "i < alen")
    case True
    have da: "drop i avec = avec ! i # drop (Suc i) avec"
      using True "1.prems" by (simp add: Cons_nth_drop_Suc)
    have db: "drop i bvec = bvec ! i # drop (Suc i) bvec"
      using True "1.prems" by (simp add: Cons_nth_drop_Suc)
    have "compute_loop r avec bvec alen i (s1, s2) =
          compute_loop r avec bvec alen (Suc i)
            (fadd r s1 (fabs (fsub r (avec ! i) (bvec ! i))),
             fadd r s2 (fabs (fadd r (avec ! i) (bvec ! i))))"
      using True by (subst compute_loop.simps) simp
    also have "\<dots> =
      (foldl (fadd r) (fadd r s1 (fabs (fsub r (avec ! i) (bvec ! i))))
         (map2 (\<lambda>x y. fabs (fsub r x y)) (drop (Suc i) avec) (drop (Suc i) bvec)),
       foldl (fadd r) (fadd r s2 (fabs (fadd r (avec ! i) (bvec ! i))))
         (map2 (\<lambda>x y. fabs (fadd r x y)) (drop (Suc i) avec) (drop (Suc i) bvec)))"
      using True "1.prems" by (intro "1.hyps") simp_all
    finally show ?thesis by (simp add: da db)
  next
    case False
    then show ?thesis using "1.prems" by (subst compute_loop.simps) simp
  qed
qed

lemma feq_zero: "feq x (Fin 0) = (x = Fin 0)"
  by (cases x) auto

lemma compute_eq:
  "compute r d idx_a idx_b =
     (if length (lhs d idx_a) \<noteq> length (rhs d idx_b) then Inl (AssertError ''alen==blen'')
      else if abs_sum_sum r (lhs d idx_a) (rhs d idx_b) = Fin 0 then Inr (Fin 0)
      else Inr (fdiv r (abs_diff_sum r (lhs d idx_a) (rhs d idx_b))
                  (abs_sum_sum r (lhs d idx_a) (rhs d idx_b))))"
proof -
  have loop: "length (lhs d idx_a) = length (rhs d idx_b) \<Longrightarrow>
      compute_loop r (lhs d idx_a) (rhs d idx_b) (length (lhs d idx_a)) 0 (Fin 0, Fin 0) =
        (abs_diff_sum r (lhs d idx_a) (rhs d idx_b), abs_sum_sum r (lhs d idx_a) (rhs d idx_b))"
    by (simp add: compute_loop_foldl abs_diff_sum_def abs_sum_sum_def)
  show ?thesis
  proof (cases "length (lhs d idx_a) = length (rhs d idx_b)")
    case True
    show ?thesis
      unfolding compute_def Let_def loop [OF True] using True by (simp add: feq_zero)
  next
    case False
    then show ?thesis by (simp add: compute_def Let_def)
  qed
qed

subsection \<open>Exchanging the two vectors\<close>

lemma map2_symmetric:
  assumes sym: "\<And>x y. f x y = f y x"
  shows "map2 f a b = map2 f b a"
proof (induction a arbitrary: b)
  case Nil
  show ?case by simp
next
  case (Cons x a)
  show ?case
  proof (cases b)
    case Nil
    then show ?thesis by simp
  next
    case (Cons y b')
    have "f x y = f y x" by (rule sym)
    moreover have "map2 f a b' = map2 f b' a" by (rule Cons.IH)
    ultimately show ?thesis using Cons by simp
  qed
qed

lemma abs_sum_sum_commute: "abs_sum_sum r a b = abs_sum_sum r b a"
proof -
  have "map2 (\<lambda>x y. fabs (fadd r x y)) a b = map2 (\<lambda>x y. fabs (fadd r x y)) b a"
    by (rule map2_symmetric) (rule arg_cong [OF fadd_commute])
  then show ?thesis by (simp only: abs_sum_sum_def)
qed

lemma abs_diff_sum_commute:
  assumes "rounding_odd r"
  shows "abs_diff_sum r a b = abs_diff_sum r b a"
proof -
  have "map2 (\<lambda>x y. fabs (fsub r x y)) a b = map2 (\<lambda>x y. fabs (fsub r x y)) b a"
    by (rule map2_symmetric) (rule fabs_fsub_swap [OF assms])
  then show ?thesis by (simp only: abs_diff_sum_def)
qed

lemma rounding_ok_exact: "rounding_ok exact"
  by (simp add: rounding_ok_def exact_def)

lemma rounding_odd_exact: "rounding_odd exact"
  by (simp add: rounding_odd_def exact_def)

text \<open>
  C9. The distance is symmetric in the two vectors: \<open>compute(idx_a, idx_b)\<close> on the
  vectors a (of \<open>lhs\<close>) and b (of \<open>rhs\<close>) equals \<open>compute(idx_b, idx_a)\<close> on b and a,
  error on unequal lengths included; so on a distance whose two sides are the same
  container \<open>compute(idx_a, idx_b)\<close> equals \<open>compute(idx_b, idx_a)\<close>.
\<close>

theorem compute_symmetric:
  assumes "rounding_odd r"
  shows "compute r \<lparr>lhs = l, rhs = h\<rparr> idx_a idx_b =
           compute r \<lparr>lhs = h, rhs = l\<rparr> idx_b idx_a \<and>
         compute r \<lparr>lhs = l, rhs = l\<rparr> idx_a idx_b =
           compute r \<lparr>lhs = l, rhs = l\<rparr> idx_b idx_a"
proof -
  have swap: "compute r \<lparr>lhs = f, rhs = g\<rparr> i j = compute r \<lparr>lhs = g, rhs = f\<rparr> j i"
    for f g i j
  proof -
    have s1: "abs_diff_sum r (g j) (f i) = abs_diff_sum r (f i) (g j)"
      by (rule abs_diff_sum_commute [OF assms])
    have s2: "abs_sum_sum r (g j) (f i) = abs_sum_sum r (f i) (g j)"
      by (rule abs_sum_sum_commute)
    have len: "(length (g j) \<noteq> length (f i)) = (length (f i) \<noteq> length (g j))"
      by auto
    show ?thesis
      by (simp add: compute_eq s1 s2 len)
  qed
  show ?thesis
    by (intro conjI swap)
qed

theorem compute_symmetric_witness:
  "rounding_odd exact \<and>
   compute exact (features [Fin 1, Fin (- 2)] [Fin 3, Fin 2]) 0 0 = Inr (Fin (3 / 2)) \<and>
   compute exact (features [Fin 3, Fin 2] [Fin 1, Fin (- 2)]) 0 0 = Inr (Fin (3 / 2))"
  using compute_symmetric
      [OF rounding_odd_exact, of "\<lambda>idx. [Fin 1, Fin (- 2)]" "\<lambda>idx. [Fin 3, Fin 2]" 0 0]
  by (simp add: rounding_odd_def features_def compute_def compute_loop.simps fsub_def
      exact_def)

subsection \<open>Zero sums\<close>

lemma fabs_range: "nonneg (fabs x) \<or> fabs x = NaN"
  by (cases x) simp_all

lemma fabs_nonneg: "x \<noteq> NaN \<Longrightarrow> nonneg (fabs x)"
  by (cases x) simp_all

lemma fabs_zero: "(fabs x = Fin 0) = (x = Fin 0)"
  by (cases x) simp_all

lemma fadd_nonneg: "rounding_ok r \<Longrightarrow> nonneg s \<Longrightarrow> nonneg t \<Longrightarrow> nonneg (fadd r s t)"
  by (cases s; cases t) (simp_all add: rounding_ok_def)

lemma fadd_range:
  "rounding_ok r \<Longrightarrow> nonneg s \<or> s = NaN \<Longrightarrow> nonneg t \<or> t = NaN \<Longrightarrow>
   nonneg (fadd r s t) \<or> fadd r s t = NaN"
  by (cases s; cases t) (simp_all add: rounding_ok_def)

lemma fadd_zero_imp:
  assumes ok: "rounding_ok r" and s: "nonneg s \<or> s = NaN" and t: "nonneg t \<or> t = NaN"
    and z: "fadd r s t = Fin 0"
  shows "s = Fin 0 \<and> t = Fin 0"
proof (cases s)
  case (Fin x)
  show ?thesis
  proof (cases t)
    case (Fin y)
    from z \<open>s = Fin x\<close> Fin have "round_add r (x + y) = Fin 0" by simp
    with ok have "x + y = 0" by (simp add: rounding_ok_def)
    moreover from s t \<open>s = Fin x\<close> Fin have "0 \<le> x" "0 \<le> y" by simp_all
    ultimately have "x = 0" "y = 0" by linarith+
    with \<open>s = Fin x\<close> Fin show ?thesis by simp
  qed (use z \<open>s = Fin x\<close> in simp_all)
next
  case PInf
  with z t show ?thesis by (cases t) simp_all
next
  case NInf
  with s show ?thesis by simp
next
  case NaN
  with z show ?thesis by simp
qed

lemma foldl_fadd_zeros:
  "round_add r 0 = Fin 0 \<Longrightarrow> \<forall>t\<in>set ts. t = Fin 0 \<Longrightarrow> foldl (fadd r) (Fin 0) ts = Fin 0"
  by (induction ts) simp_all

lemma foldl_fadd_zero_imp:
  "rounding_ok r \<Longrightarrow> nonneg s \<or> s = NaN \<Longrightarrow> \<forall>t\<in>set ts. nonneg t \<or> t = NaN \<Longrightarrow>
   foldl (fadd r) s ts = Fin 0 \<Longrightarrow> s = Fin 0 \<and> (\<forall>t\<in>set ts. t = Fin 0)"
proof (induction ts arbitrary: s)
  case Nil
  then show ?case by simp
next
  case (Cons t ts)
  have rng: "nonneg (fadd r s t) \<or> fadd r s t = NaN"
    using Cons.prems by (intro fadd_range) simp_all
  have "fadd r s t = Fin 0 \<and> (\<forall>u\<in>set ts. u = Fin 0)"
    using Cons.prems rng by (intro Cons.IH) simp_all
  moreover from this have "s = Fin 0 \<and> t = Fin 0"
    using Cons.prems by (intro fadd_zero_imp [of r]) simp_all
  ultimately show ?case by simp
qed

lemma foldl_fadd_nonneg:
  "rounding_ok r \<Longrightarrow> nonneg s \<Longrightarrow> \<forall>t\<in>set ts. nonneg t \<Longrightarrow> nonneg (foldl (fadd r) s ts)"
  by (induction ts arbitrary: s) (simp_all add: fadd_nonneg)

lemma abs_sum_sum_zero_iff:
  assumes ok: "rounding_ok r" and len: "length a = length b"
  shows "(abs_sum_sum r a b = Fin 0) = list_all2 (\<lambda>x y. fadd r x y = Fin 0) a b"
proof
  assume z: "abs_sum_sum r a b = Fin 0"
  have rng: "\<forall>t\<in>set (map2 (\<lambda>x y. fabs (fadd r x y)) a b). nonneg t \<or> t = NaN"
    using fabs_range by fastforce
  have start: "nonneg (Fin 0) \<or> Fin 0 = NaN"
    by simp
  have "\<forall>t\<in>set (map2 (\<lambda>x y. fabs (fadd r x y)) a b). t = Fin 0"
    using foldl_fadd_zero_imp [OF ok start rng] z unfolding abs_sum_sum_def by blast
  then have "\<forall>(x, y)\<in>set (zip a b). fadd r x y = Fin 0"
    by (auto simp: fabs_zero)
  with len show "list_all2 (\<lambda>x y. fadd r x y = Fin 0) a b"
    by (simp add: list_all2_iff)
next
  assume "list_all2 (\<lambda>x y. fadd r x y = Fin 0) a b"
  then have "\<forall>t\<in>set (map2 (\<lambda>x y. fabs (fadd r x y)) a b). t = Fin 0"
    by (auto simp: list_all2_iff)
  with ok show "abs_sum_sum r a b = Fin 0"
    unfolding abs_sum_sum_def by (intro foldl_fadd_zeros) (simp_all add: rounding_ok_def)
qed

lemma abs_diff_sum_same:
  assumes ok: "rounding_ok r" and fin: "list_all is_finite a"
  shows "abs_diff_sum r a a = Fin 0"
proof -
  have "fabs (fsub r x x) = Fin 0" if "is_finite x" for x
    using that ok by (cases x) (simp_all add: fsub_def rounding_ok_def)
  with fin have "\<forall>t\<in>set (map2 (\<lambda>x y. fabs (fsub r x y)) a a). t = Fin 0"
    by (auto simp: zip_same_conv_map list_all_iff)
  with ok show ?thesis
    unfolding abs_diff_sum_def by (intro foldl_fadd_zeros) (simp_all add: rounding_ok_def)
qed

lemma abs_sum_sum_same_nonneg:
  assumes ok: "rounding_ok r" and fin: "list_all is_finite a"
  shows "nonneg (abs_sum_sum r a a)"
proof -
  have "nonneg (fabs (fadd r x x))" if "is_finite x" for x
    using that ok by (cases x) (simp_all add: fabs_nonneg rounding_ok_def)
  with fin have "\<forall>t\<in>set (map2 (\<lambda>x y. fabs (fadd r x y)) a a). nonneg t"
    by (auto simp: zip_same_conv_map list_all_iff)
  with ok show ?thesis
    unfolding abs_sum_sum_def by (intro foldl_fadd_nonneg) simp_all
qed

lemma fdiv_zero: "rounding_ok r \<Longrightarrow> nonneg s \<Longrightarrow> s \<noteq> Fin 0 \<Longrightarrow> fdiv r (Fin 0) s = Fin 0"
  by (cases s) (simp_all add: rounding_ok_def)

subsection \<open>Entries that are not finite\<close>

lemma fadd_NaN_right: "fadd r x NaN = NaN"
  by (cases x) simp_all

lemma foldl_fadd_NaN_start: "foldl (fadd r) NaN ts = NaN"
  by (induction ts) simp_all

lemma foldl_fadd_NaN: "NaN \<in> set ts \<Longrightarrow> foldl (fadd r) s ts = NaN"
  by (induction ts arbitrary: s) (auto simp: fadd_NaN_right foldl_fadd_NaN_start)

lemma fabs_fsub_same_infinite: "\<not> is_finite x \<Longrightarrow> fabs (fsub r x x) = NaN"
  by (cases x) (simp_all add: fsub_def)

lemma fadd_same_infinite: "\<not> is_finite x \<Longrightarrow> fadd r x x \<noteq> Fin 0"
  by (cases x) simp_all

lemma abs_diff_sum_same_infinite:
  assumes "\<not> list_all is_finite a"
  shows "abs_diff_sum r a a = NaN"
proof -
  from assms obtain x where x: "x \<in> set a" "\<not> is_finite x"
    by (auto simp: list_all_iff)
  have "fabs (fsub r x x) \<in> set (map2 (\<lambda>x y. fabs (fsub r x y)) a a)"
    using x(1) by (force simp: zip_same_conv_map)
  then have "NaN \<in> set (map2 (\<lambda>x y. fabs (fsub r x y)) a a)"
    by (simp only: fabs_fsub_same_infinite [OF x(2)])
  then show ?thesis
    unfolding abs_diff_sum_def by (rule foldl_fadd_NaN)
qed

lemma sums_same_infinite:
  assumes "\<not> list_all is_finite a"
  shows "\<not> list_all2 (\<lambda>x y. fadd r x y = Fin 0) a a"
proof -
  from assms obtain x where x: "x \<in> set a" "\<not> is_finite x"
    by (auto simp: list_all_iff)
  have "(x, x) \<in> set (zip a a)"
    using x(1) by (force simp: zip_same_conv_map)
  moreover have "fadd r x x \<noteq> Fin 0"
    by (rule fadd_same_infinite [OF x(2)])
  ultimately show ?thesis
    by (auto simp: list_all2_iff)
qed

text \<open>
  C7, as stated: for two equal vectors that are not the zero vector the distance is
  exactly 0. The vector with the one entry infinity is equal to itself and is not the
  zero vector, and its distance to itself is NaN: the difference of the entries is NaN,
  their sum is infinity, and the guard lets the division through.
\<close>

theorem compute_equal_infinite_counterexample:
  "lhs (features [PInf] [PInf]) 0 = rhs (features [PInf] [PInf]) 0 \<and>
   lhs (features [PInf] [PInf]) 0 \<noteq> [Fin 0] \<and>
   compute exact (features [PInf] [PInf]) 0 0 = Inr NaN"
  by (simp add: features_def compute_def compute_loop.simps fsub_def)

text \<open>
  C7, amended. For two feature vectors of equal length: the distance is exactly 0 when
  the two vectors are equal and all their entries are finite; it is exactly 0 (the guard,
  no NaN) when the sums \<open>a_i + b_i\<close> are all zero; otherwise it is the sum of the
  \<open>|a_i - b_i|\<close> divided by the sum of the \<open>|a_i + b_i|\<close>. Equal vectors with an
  entry that is infinite or NaN give NaN.
\<close>

theorem compute_bray_curtis:
  assumes ok: "rounding_ok r" and len: "length (lhs d idx_a) = length (rhs d idx_b)"
  shows
    "(lhs d idx_a = rhs d idx_b \<and> list_all is_finite (lhs d idx_a) \<longrightarrow>
        compute r d idx_a idx_b = Inr (Fin 0)) \<and>
     (list_all2 (\<lambda>x y. fadd r x y = Fin 0) (lhs d idx_a) (rhs d idx_b) \<longrightarrow>
        compute r d idx_a idx_b = Inr (Fin 0)) \<and>
     (\<not> list_all2 (\<lambda>x y. fadd r x y = Fin 0) (lhs d idx_a) (rhs d idx_b) \<longrightarrow>
        compute r d idx_a idx_b =
          Inr (fdiv r (abs_diff_sum r (lhs d idx_a) (rhs d idx_b))
                 (abs_sum_sum r (lhs d idx_a) (rhs d idx_b)))) \<and>
     (lhs d idx_a = rhs d idx_b \<and> \<not> list_all is_finite (lhs d idx_a) \<longrightarrow>
        compute r d idx_a idx_b = Inr NaN)"
proof (intro conjI impI)
  assume both: "lhs d idx_a = rhs d idx_b \<and> list_all is_finite (lhs d idx_a)"
  from both have eq: "rhs d idx_b = lhs d idx_a"
    by (rule conjunct1 [THEN sym])
  from both have fin: "list_all is_finite (lhs d idx_a)"
    by (rule conjunct2)
  have s1: "abs_diff_sum r (lhs d idx_a) (rhs d idx_b) = Fin 0"
    unfolding eq by (rule abs_diff_sum_same [OF ok fin])
  have s2: "nonneg (abs_sum_sum r (lhs d idx_a) (rhs d idx_b))"
    unfolding eq by (rule abs_sum_sum_same_nonneg [OF ok fin])
  show "compute r d idx_a idx_b = Inr (Fin 0)"
    using len s2 by (simp add: compute_eq s1 fdiv_zero [OF ok])
next
  assume "list_all2 (\<lambda>x y. fadd r x y = Fin 0) (lhs d idx_a) (rhs d idx_b)"
  then show "compute r d idx_a idx_b = Inr (Fin 0)"
    using len by (simp add: compute_eq abs_sum_sum_zero_iff [OF ok len])
next
  assume "\<not> list_all2 (\<lambda>x y. fadd r x y = Fin 0) (lhs d idx_a) (rhs d idx_b)"
  then show "compute r d idx_a idx_b =
      Inr (fdiv r (abs_diff_sum r (lhs d idx_a) (rhs d idx_b))
             (abs_sum_sum r (lhs d idx_a) (rhs d idx_b)))"
    using len by (simp add: compute_eq abs_sum_sum_zero_iff [OF ok len])
next
  assume both: "lhs d idx_a = rhs d idx_b \<and> \<not> list_all is_finite (lhs d idx_a)"
  from both have eq: "rhs d idx_b = lhs d idx_a"
    by (rule conjunct1 [THEN sym])
  from both have inf: "\<not> list_all is_finite (lhs d idx_a)"
    by (rule conjunct2)
  have s1: "abs_diff_sum r (lhs d idx_a) (rhs d idx_b) = NaN"
    unfolding eq by (rule abs_diff_sum_same_infinite [OF inf])
  have "\<not> list_all2 (\<lambda>x y. fadd r x y = Fin 0) (lhs d idx_a) (rhs d idx_b)"
    unfolding eq by (rule sums_same_infinite [OF inf])
  then have s2: "abs_sum_sum r (lhs d idx_a) (rhs d idx_b) \<noteq> Fin 0"
    by (simp add: abs_sum_sum_zero_iff [OF ok len])
  show "compute r d idx_a idx_b = Inr NaN"
    using len s2 by (simp add: compute_eq s1)
qed

theorem compute_bray_curtis_witness:
  "rounding_ok exact \<and>
   compute exact (features [Fin 1, Fin (- 2)] [Fin 1, Fin (- 2)]) 0 0 = Inr (Fin 0) \<and>
   compute exact (features [Fin 1, Fin (- 2)] [Fin (- 1), Fin 2]) 0 0 = Inr (Fin 0) \<and>
   compute exact (features [Fin 1, Fin (- 2)] [Fin 3, Fin 2]) 0 0 = Inr (Fin (3 / 2)) \<and>
   compute exact (features [Fin 1, NInf] [Fin 1, NInf]) 0 0 = Inr NaN"
  using compute_bray_curtis
      [OF rounding_ok_exact, of "features [Fin 1, NInf] [Fin 1, NInf]" 0 0]
    compute_bray_curtis
      [OF rounding_ok_exact, of "features [Fin 1, Fin (- 2)] [Fin 1, Fin (- 2)]" 0 0]
    compute_bray_curtis
      [OF rounding_ok_exact, of "features [Fin 1, Fin (- 2)] [Fin (- 1), Fin 2]" 0 0]
    compute_bray_curtis
      [OF rounding_ok_exact, of "features [Fin 1, Fin (- 2)] [Fin 3, Fin 2]" 0 0]
  by (simp add: rounding_ok_def features_def abs_diff_sum_def abs_sum_sum_def fsub_def
      exact_def)

end
